theory Spec2Isabelle
  imports Complex_Main
begin

section \<open>Values of the host language\<close>

text \<open>
  A string of the host language is a sequence of UTF-16 code units. The strings whose
  content the program inspects or that come from outside (the typed link, and every
  string of a snapshot) are lists of code units, a code unit being a natural number
  (below 65536); every string of the host language is such a list. A literal of the
  program text is ASCII, and \<open>str\<close> gives its code units. Texts that the program only
  passes on (a response body, an error message, an alert, a stored value) and the fixed
  names of the program stay lists of characters.

  Numbers reach the client only through \<open>JSON.parse\<close>, which yields finite doubles and,
  for literals beyond the double range, the two infinities; it never yields NaN, and no
  operation below produces one. Every finite double is a real number and the comparisons
  of the source are exact, so a finite number is modelled by its real value.
\<close>

type_synonym code_unit = nat

type_synonym js_string = "code_unit list"

definition unit_of :: "char \<Rightarrow> code_unit" where
  "unit_of c = of_char c"

definition str :: "string \<Rightarrow> js_string" where
  "str s = map unit_of s"

datatype number = Fin real | PosInfinity | NegInfinity

fun num_ge :: "number \<Rightarrow> real \<Rightarrow> bool" where
  "num_ge (Fin x) r = (r \<le> x)"
| "num_ge PosInfinity r = True"
| "num_ge NegInfinity r = False"

fun num_gt :: "number \<Rightarrow> real \<Rightarrow> bool" where
  "num_gt (Fin x) r = (r < x)"
| "num_gt PosInfinity r = True"
| "num_gt NegInfinity r = False"

fun num_lt :: "number \<Rightarrow> real \<Rightarrow> bool" where
  "num_lt (Fin x) r = (x < r)"
| "num_lt PosInfinity r = False"
| "num_lt NegInfinity r = True"

text \<open>Truthiness: a number is falsy exactly when it is zero (of either sign).\<close>

fun truthy_number :: "number \<Rightarrow> bool" where
  "truthy_number (Fin x) = (x \<noteq> 0)"
| "truthy_number PosInfinity = True"
| "truthy_number NegInfinity = True"

text \<open>
  A string is truthy when it is not empty; an optional field is truthy when it is
  present and its value is truthy.
\<close>

definition truthy_opt_number :: "number option \<Rightarrow> bool" where
  "truthy_opt_number v = (case v of None \<Rightarrow> False | Some n \<Rightarrow> truthy_number n)"

definition truthy_string :: "'a list \<Rightarrow> bool" where
  "truthy_string s = (s \<noteq> [])"

definition truthy_opt_string :: "'a list option \<Rightarrow> bool" where
  "truthy_opt_string v = (case v of None \<Rightarrow> False | Some s \<Rightarrow> truthy_string s)"

definition truthy_opt_bool :: "bool option \<Rightarrow> bool" where
  "truthy_opt_bool v = (case v of None \<Rightarrow> False | Some b \<Rightarrow> b)"

text \<open>
  \<open>s.split(sep)\<close> for a separator of one code unit: the pieces between the separators,
  in order; the empty string gives one empty piece, and the result is never empty.
\<close>

fun split :: "'a \<Rightarrow> 'a list \<Rightarrow> 'a list list" where
  "split sep [] = [[]]"
| "split sep (c # cs) =
     (if c = sep then [] # split sep cs
      else (case split sep cs of
              [] \<Rightarrow> [[c]]
            | w # ws \<Rightarrow> (c # w) # ws))"

text \<open>\<open>ws.join(sep)\<close>: the pieces with the separator between neighbours.\<close>

fun join :: "'a list \<Rightarrow> 'a list list \<Rightarrow> 'a list" where
  "join sep [] = []"
| "join sep [w] = w"
| "join sep (w # v # ws) = w @ sep @ join sep (v # ws)"


section \<open>Formatting helpers (utils/formatters.ts)\<close>

text \<open>
  \<open>String.prototype.toUpperCase\<close> is the platform's: it follows the Unicode case
  mapping, and the upper-casing of one code unit may be several code units (a sharp s
  becomes two letters). The helpers apply it to \<open>word.charAt(0)\<close> only, which is a string
  of one code unit, or the empty string, whose upper-casing is empty. So the model takes
  as a parameter what the platform gives for each string of one code unit.
\<close>

type_synonym upper_casing = "code_unit \<Rightarrow> js_string"

text \<open>
  The arrow function \<open>(word) => word.charAt(0).toUpperCase() + word.slice(1)\<close>: on the
  empty word \<open>charAt(0)\<close> is the empty string, so the result is empty.
\<close>

definition capitalizeWord :: "upper_casing \<Rightarrow> js_string \<Rightarrow> js_string" where
  "capitalizeWord toUpperCase word =
     (case word of [] \<Rightarrow> [] | c # cs \<Rightarrow> toUpperCase c @ cs)"

definition formatRoomType :: "upper_casing \<Rightarrow> js_string \<Rightarrow> js_string" where
  "formatRoomType toUpperCase roomType =
     join (str '' '') (map (capitalizeWord toUpperCase) (split (unit_of CHR ''_'') roomType))"

definition formatCategoryName :: "upper_casing \<Rightarrow> js_string \<Rightarrow> js_string" where
  "formatCategoryName toUpperCase category =
     join (str '' '') (map (capitalizeWord toUpperCase) (split (unit_of CHR ''_'') category))"

text \<open>
  \<open>getConditionColor(condition?: number)\<close> and \<open>getConditionLabel(condition?: number)\<close>:
  the first test \<open>!condition\<close> holds for an absent value and for zero.
\<close>

definition getConditionColor :: "number option \<Rightarrow> string" where
  "getConditionColor condition =
     (case condition of
        None \<Rightarrow> ''text-gray-500''
      | Some v \<Rightarrow>
          if \<not> truthy_number v then ''text-gray-500''
          else if num_ge v 3.5 then ''text-green-600''
          else if num_ge v 2.5 then ''text-yellow-600''
          else ''text-red-600'')"

definition getConditionLabel :: "number option \<Rightarrow> string" where
  "getConditionLabel condition =
     (case condition of
        None \<Rightarrow> ''N/A''
      | Some v \<Rightarrow>
          if \<not> truthy_number v then ''N/A''
          else if num_ge v 3.5 then ''Excellent''
          else if num_ge v 2.5 then ''Good''
          else if num_ge v 1.5 then ''Fair''
          else ''Poor'')"

text \<open>
  The label rule in the words of the specification, for comparison with the code: every
  token is title-cased, its first letter upper case and the rest lower case. The
  lower-casing of one code unit is a parameter like the upper-casing.
\<close>

definition titleCaseWord_spec ::
  "upper_casing \<Rightarrow> (code_unit \<Rightarrow> js_string) \<Rightarrow> js_string \<Rightarrow> js_string" where
  "titleCaseWord_spec toUpperCase toLowerCase word =
     (case word of [] \<Rightarrow> [] | c # cs \<Rightarrow> toUpperCase c @ concat (map toLowerCase cs))"

definition formatLabel_spec ::
  "upper_casing \<Rightarrow> (code_unit \<Rightarrow> js_string) \<Rightarrow> js_string \<Rightarrow> js_string" where
  "formatLabel_spec toUpperCase toLowerCase s =
     join (str '' '')
       (map (titleCaseWord_spec toUpperCase toLowerCase) (split (unit_of CHR ''_'') s))"

text \<open>
  A reading of the label format in one pass over the code units, used in the proofs: the
  flag says whether the next code unit starts a token.
\<close>

fun label_chars :: "upper_casing \<Rightarrow> bool \<Rightarrow> js_string \<Rightarrow> js_string" where
  "label_chars toUpperCase start [] = []"
| "label_chars toUpperCase start (c # cs) =
     (if c = unit_of CHR ''_'' then unit_of CHR '' '' # label_chars toUpperCase True cs
      else (if start then toUpperCase c else [c]) @ label_chars toUpperCase False cs)"



section \<open>Submission flow (app/page.tsx, services/api.ts)\<close>

text \<open>
  \<open>String.prototype.trim\<close> removes white space and line terminators from both ends.
  White space is tab, vertical tab, form feed, the byte order mark U+FEFF and the space
  separators of Unicode (space, no-break space, U+1680, U+2000 to U+200A, U+202F,
  U+205F, U+3000); the line terminators are line feed, carriage return, U+2028 and
  U+2029. Each is one code unit.
\<close>

definition is_whitespace :: "code_unit \<Rightarrow> bool" where
  "is_whitespace c =
     (c \<in> set [0x09, 0x0B, 0x0C, 0xFEFF,
                0x20, 0xA0, 0x1680, 0x202F, 0x205F, 0x3000,
                0x0A, 0x0D, 0x2028, 0x2029]
      \<or> (0x2000 \<le> c \<and> c \<le> 0x200A))"

definition trim :: "js_string \<Rightarrow> js_string" where
  "trim s = rev (dropWhile is_whitespace (rev (dropWhile is_whitespace s)))"

text \<open>Decimal rendering of a natural number, as a template literal prints a status code.\<close>

definition digit_char :: "nat \<Rightarrow> char" where
  "digit_char d = ''0123456789'' ! (d mod 10)"

fun decimal :: "nat \<Rightarrow> string" where
  "decimal n = (if n < 10 then [digit_char n] else decimal (n div 10) @ [digit_char n])"

declare decimal.simps [simp del]

text \<open>
  The outbound call. The request carries the serialisation of the object literal
  \<open>{ link }\<close>; it is kept structured, as the one string that object holds.
\<close>

datatype request_body = LinkObject js_string

record request =
  url :: string
  http_method :: string
  headers :: "(string \<times> string) list"
  body :: request_body

text \<open>
  What \<open>fetch\<close> settles with: it rejects with a thrown value (a network failure is an
  \<open>Error\<close> object with a message), or it resolves with a response of any status,
  whose body text can be read.
\<close>

datatype thrown = ErrorObject string | NonError

datatype fetch_result = Rejected thrown | Response nat string

text \<open>
  The platform the submission flow runs on, a parameter of the model: the environment
  variable, the transport, and the JSON functions of the host language over its values
  \<open>'v\<close>. \<open>JSON_parse\<close> gives \<open>Inl\<close> with the message of the \<open>SyntaxError\<close> it throws on a
  text that is not JSON.
\<close>

record 'v platform =
  NEXT_PUBLIC_API_BASE :: "string option"
  fetch :: "request \<Rightarrow> fetch_result"
  JSON_parse :: "string \<Rightarrow> string + 'v"
  JSON_stringify :: "'v \<Rightarrow> string"

definition API_BASE :: "'v platform \<Rightarrow> string" where
  "API_BASE p =
     (case NEXT_PUBLIC_API_BASE p of
        None \<Rightarrow> ''http://127.0.0.1:8000''
      | Some s \<Rightarrow> if truthy_string s then s else ''http://127.0.0.1:8000'')"

definition analyze_request :: "'v platform \<Rightarrow> js_string \<Rightarrow> request" where
  "analyze_request p lnk =
     \<lparr> url = API_BASE p @ ''/analyze'',
       http_method = ''POST'',
       headers = [(''Content-Type'', ''application/json'')],
       body = LinkObject lnk \<rparr>"

definition response_ok :: "nat \<Rightarrow> bool" where
  "response_ok status = (200 \<le> status \<and> status \<le> 299)"

text \<open>
  \<open>analyzeProperty(link)\<close>: the promise it returns rejects (\<open>Inl\<close>) when \<open>fetch\<close> rejects,
  when the status is not a success status, or when the body is not JSON; otherwise it
  resolves with the parsed body.
\<close>

definition analyzeProperty :: "'v platform \<Rightarrow> js_string \<Rightarrow> thrown + 'v" where
  "analyzeProperty p lnk =
     (case fetch p (analyze_request p lnk) of
        Rejected t \<Rightarrow> Inl t
      | Response status text \<Rightarrow>
          if \<not> response_ok status then
            Inl (ErrorObject (''Failed to analyze property: '' @ decimal status @ '' '' @ text))
          else
            (case JSON_parse p text of
               Inl msg \<Rightarrow> Inl (ErrorObject msg)
             | Inr v \<Rightarrow> Inr v))"

text \<open>
  The state the submit handler reads and writes: the two state variables of the \<open>Home\<close>
  component, the session storage, the alerts shown so far, the current route, and the
  log of outbound calls.
\<close>

record world =
  link :: js_string
  loading :: bool
  sessionStorage :: "string \<rightharpoonup> string"
  alerts :: "string list"
  route :: string
  requests :: "request list"

definition errorMessage :: "thrown \<Rightarrow> string" where
  "errorMessage error = (case error of ErrorObject message \<Rightarrow> message | NonError \<Rightarrow> ''Unknown error'')"

text \<open>
  \<open>handleSubmit\<close>, run to completion (the handler is the only code that runs between
  the submit event and the settlement of the request). Reading the body of a response
  and writing to the session storage are taken to succeed.
\<close>

definition handleSubmit :: "'v platform \<Rightarrow> world \<Rightarrow> world" where
  "handleSubmit p w =
     (if trim (link w) = [] then
        w\<lparr> alerts := alerts w @ [''Please enter a property link''] \<rparr>
      else
        let w1 = w\<lparr> loading := True, requests := requests w @ [analyze_request p (link w)] \<rparr>
        in case analyzeProperty p (link w) of
             Inr data \<Rightarrow>
               w1\<lparr> sessionStorage := (sessionStorage w1)(''analysisData'' \<mapsto> JSON_stringify p data),
                   route := ''/report'' \<rparr>
           | Inl error \<Rightarrow>
               w1\<lparr> alerts := alerts w1 @ [''Failed to analyze property: '' @ errorMessage error],
                   loading := False \<rparr>)"

text \<open>
  The submit button of the \<open>Home\<close> page: \<open>disabled={!link || loading}\<close>. (The plainer
  variant of the page has the same handler and disables the button while loading only.)
\<close>

definition submit_disabled :: "world \<Rightarrow> bool" where
  "submit_disabled w = (\<not> truthy_string (link w) \<or> loading w)"


section \<open>Report view (report page)\<close>

text \<open>
  The report page exists in two layouts (with and without cards); both read the same
  snapshot type, take the same steps on mount, and render the same division cards and
  category summary. An earlier page, for a payload keyed on its \<open>link\<close>, is modelled at
  the end of this section.

  The snapshot as the report page types it. A field the interface marks optional, or
  that the render function guards before use, is an option; the values of
  \<open>conditions\<close> may be null, which the render function tests for.
\<close>

record PropertyInfo =
  location :: "js_string option"
  size_m2 :: "number option"
  bedrooms :: "number option"
  bathrooms :: "number option"

record Investment =
  purchase_price :: number
  remodeling_costs :: number
  total_investment :: number

record Division =
  division_id :: js_string
  room_type :: js_string
  division_size_m2 :: number
  images :: "js_string list option"
  costs :: "(js_string \<times> number) list"
  total_cost :: number
  detailed_notes :: "js_string option"
  conditions :: "(js_string \<times> number option) list option"

record RehabCosts =
  property_total :: number
  summary :: "(js_string \<times> number) list option"
  divisions :: "Division list option"

record RentEstimate =
  monthly_rent :: "number option"
  total_monthly_rent :: "number option"
  annual_rent :: "number option"
  rental_strategy :: "js_string option"

record Metrics =
  roi_percentage :: number
  net_yield :: number
  gross_yield :: number
  months_to_break_even :: number

record NetIncome =
  monthly_net_income :: number
  annual_net_income :: number

record Expenses =
  total_annual_expenses :: number

record FinancialMetrics =
  metrics :: Metrics
  net_income :: NetIncome
  expenses :: Expenses

record AnalysisData =
  success :: "bool option"
  listing_id :: "js_string option"
  property_info :: "PropertyInfo option"
  investment :: "Investment option"
  rehab_costs :: "RehabCosts option"
  rent_estimate :: "RentEstimate option"
  financial_metrics :: "FinancialMetrics option"

text \<open>The initial state \<open>useState<AnalysisData>({})\<close>: no field is present.\<close>

definition empty_data :: AnalysisData where
  "empty_data =
     \<lparr> success = None, listing_id = None, property_info = None, investment = None,
       rehab_costs = None, rent_estimate = None, financial_metrics = None \<rparr>"

text \<open>
  What a render produces. Class names, icons and static captions are left out; an
  element is named by its role (a fixed name of the program), a list item by its React
  key (a string of the snapshot). \<open>Text\<close> is a fixed text of the program, \<open>Shown\<close> a
  string that comes from the snapshot or from a formatting helper. The number
  formatting of the platform (\<open>Intl.NumberFormat\<close>, \<open>toFixed\<close>, \<open>toLocaleString\<close>, the
  text of a number) is kept symbolic: the node records which formatter is applied to
  which number.
\<close>

record number_format =
  format_locale :: string
  style :: string
  currency :: string
  minimumFractionDigits :: nat
  maximumFractionDigits :: nat

datatype node =
    Text string
  | Shown js_string
  | Number number
  | NumberFormat number_format number
  | ToFixed nat number
  | ToLocaleString number
  | Image js_string js_string
  | Element string "node list"
  | Item js_string "node list"

datatype view = LoadingView | FailureView "node list" | ReportView "node list"

text \<open>\<open>formatCurrency(amount)\<close> of utils/formatters.ts: the call it makes to the platform.\<close>

definition formatCurrency :: "number \<Rightarrow> node" where
  "formatCurrency amount =
     NumberFormat \<lparr> format_locale = ''pt-PT'', style = ''currency'', currency = ''EUR'',
                    minimumFractionDigits = 0, maximumFractionDigits = 0 \<rparr> amount"

text \<open>Division of a number by a positive constant.\<close>

fun num_div :: "number \<Rightarrow> real \<Rightarrow> number" where
  "num_div (Fin x) r = Fin (x / r)"
| "num_div PosInfinity r = PosInfinity"
| "num_div NegInfinity r = NegInfinity"

text \<open>
  \<open>{v && <jsx/>}\<close> in a render: nothing for an absent value; for a number that is zero
  the number itself is rendered; for an empty string nothing.
\<close>

definition when_number :: "number option \<Rightarrow> (number \<Rightarrow> node list) \<Rightarrow> node list" where
  "when_number v jsx =
     (case v of None \<Rightarrow> [] | Some n \<Rightarrow> if truthy_number n then jsx n else [Number n])"

definition when_string :: "js_string option \<Rightarrow> (js_string \<Rightarrow> node list) \<Rightarrow> node list" where
  "when_string v jsx =
     (case v of None \<Rightarrow> [] | Some s \<Rightarrow> if truthy_string s then jsx s else [])"

text \<open>\<open>a || b\<close> on optional numbers: \<open>a\<close> when it is truthy, \<open>b\<close> otherwise.\<close>

definition or_else :: "number option \<Rightarrow> number option \<Rightarrow> number option" where
  "or_else a b = (if truthy_opt_number a then a else b)"

text \<open>
  The argument of \<open>formatCurrency\<close> in the rental display:
  \<open>monthly_rent || total_monthly_rent || 0\<close>.
\<close>

definition monthly_figure :: "RentEstimate \<Rightarrow> number" where
  "monthly_figure re =
     (case or_else (or_else (monthly_rent re) (total_monthly_rent re)) (Some (Fin 0)) of
        None \<Rightarrow> Fin 0
      | Some n \<Rightarrow> n)"

text \<open>The parts of a division card; both layouts render them alike.\<close>

definition condition_items ::
  "upper_casing \<Rightarrow> (js_string \<times> number option) list \<Rightarrow> node list" where
  "condition_items toUpperCase entries =
     concat (map (\<lambda>(key, value).
        case value of
          None \<Rightarrow> []
        | Some v \<Rightarrow>
            [Item key
               [Shown (formatCategoryName toUpperCase key),
                Element (getConditionColor (Some v)) [ToFixed 1 v, Text (getConditionLabel (Some v))]]])
        entries)"

definition cost_items :: "upper_casing \<Rightarrow> (js_string \<times> number) list \<Rightarrow> node list" where
  "cost_items toUpperCase entries =
     map (\<lambda>(costType, cost).
            Item costType [Shown (formatCategoryName toUpperCase costType), formatCurrency cost])
       entries"

definition image_items :: "js_string \<Rightarrow> js_string list \<Rightarrow> node list" where
  "image_items roomType urls =
     map (\<lambda>(idx, imageUrl). Image imageUrl (roomType @ str '' '' @ str (decimal (idx + 1))))
       (enumerate 0 urls)"

definition division_card :: "upper_casing \<Rightarrow> Division \<Rightarrow> node" where
  "division_card toUpperCase division =
     Item (division_id division)
       ([Element ''title''
           [Shown (formatRoomType toUpperCase (room_type division)), Shown (division_id division)],
         Element ''size'' [Number (division_size_m2 division)],
         Element ''Total Cost'' [formatCurrency (total_cost division)]]
        @ (case conditions division of
             None \<Rightarrow> []
           | Some entries \<Rightarrow> [Element ''Conditions'' (condition_items toUpperCase entries)])
        @ (if length (costs division) > 0
           then [Element ''Cost Breakdown'' (cost_items toUpperCase (costs division))] else [])
        @ (case images division of
             None \<Rightarrow> []
           | Some urls \<Rightarrow>
               if length urls > 0
               then [Element ''Images''
                       (Number (Fin (real (length urls))) # image_items (room_type division) urls)]
               else [])
        @ when_string (detailed_notes division) (\<lambda>notes. [Element ''Notes'' [Shown notes]]))"

definition divisions_section :: "upper_casing \<Rightarrow> AnalysisData \<Rightarrow> node list" where
  "divisions_section toUpperCase d =
     (case rehab_costs d of
        None \<Rightarrow> []
      | Some rc \<Rightarrow>
          (case divisions rc of
             None \<Rightarrow> []
           | Some ds \<Rightarrow>
               if length ds > 0
               then [Element ''Divisions & Remodeling Costs''
                       (Element ''Total Remodeling Cost'' [formatCurrency (property_total rc)]
                        # map (division_card toUpperCase) ds)]
               else []))"

text \<open>
  The category summary:
  \<open>Object.entries(summary).filter(([_, cost]) => cost > 0).map(...)\<close>.
\<close>

definition summary_items :: "upper_casing \<Rightarrow> (js_string \<times> number) list \<Rightarrow> node list" where
  "summary_items toUpperCase entries =
     map (\<lambda>(category, cost).
            Item category [Shown (formatCategoryName toUpperCase category), formatCurrency cost])
       (filter (\<lambda>(_, cost). num_gt cost 0) entries)"

definition cost_summary_section :: "upper_casing \<Rightarrow> AnalysisData \<Rightarrow> node list" where
  "cost_summary_section toUpperCase d =
     (case rehab_costs d of
        None \<Rightarrow> []
      | Some rc \<Rightarrow>
          (case summary rc of
             None \<Rightarrow> []
           | Some entries \<Rightarrow>
               [Element ''Cost Summary by Category'' (summary_items toUpperCase entries)]))"

text \<open>The message both layouts return for a snapshot that is not a success.\<close>

definition failure_message :: "node list" where
  "failure_message =
     [Element ''h1'' [Text ''Analysis Report''],
      Element ''p'' [Text ''No analysis data available or analysis failed.'']]"

text \<open>The state of the \<open>Report\<close> component, and what the console has logged.\<close>

record report_state =
  data :: AnalysisData
  report_loading :: bool
  console_errors :: "string list"

definition initial_report_state :: report_state where
  "initial_report_state = \<lparr> data = empty_data, report_loading = True, console_errors = [] \<rparr>"

text \<open>
  The effect that runs once after the first render. \<open>parse\<close> is \<open>JSON.parse\<close> at the type
  the component gives its result, with \<open>Inl\<close> for the error it throws.
\<close>

definition stored_snapshot :: "(string \<rightharpoonup> string) \<Rightarrow> string option" where
  "stored_snapshot storage = storage ''analysisData''"

definition Report_mount ::
  "(string \<Rightarrow> string + AnalysisData) \<Rightarrow> (string \<rightharpoonup> string) \<Rightarrow> report_state \<Rightarrow> report_state" where
  "Report_mount parse storage st =
     (let st1 =
        (case stored_snapshot storage of
           None \<Rightarrow> st
         | Some storedData \<Rightarrow>
             if truthy_string storedData then
               (case parse storedData of
                  Inr parsed \<Rightarrow> st\<lparr> data := parsed \<rparr>
                | Inl error \<Rightarrow>
                    st\<lparr> console_errors := console_errors st @ [''Error parsing stored data:'' @ error] \<rparr>)
             else st)
      in st1\<lparr> report_loading := False \<rparr>)"

text \<open>The report page with cards (two columns, then divisions and the summary).\<close>

definition property_info_card :: "AnalysisData \<Rightarrow> node list" where
  "property_info_card d =
     (case property_info d of
        None \<Rightarrow> []
      | Some info \<Rightarrow>
          [Element ''Property Info''
             (when_string (location info) (\<lambda>s. [Element ''location'' [Shown s]])
              @ when_number (size_m2 info) (\<lambda>n. [Element ''size'' [Number n]])
              @ when_number (bedrooms info) (\<lambda>n. [Element ''beds'' [Number n]])
              @ [Element ''h2'' [Text ''Idealista Listing'']]
              @ when_string (listing_id d) (\<lambda>s. [Element ''Listing ID'' [Shown s]]))])"

definition remodel_cost_card :: "AnalysisData \<Rightarrow> node list" where
  "remodel_cost_card d =
     (case investment d of
        None \<Rightarrow> []
      | Some invest \<Rightarrow>
          [Element ''Estimated remodel cost''
             ([formatCurrency (remodeling_costs invest)]
              @ when_number (case property_info d of None \<Rightarrow> None | Some info \<Rightarrow> size_m2 info)
                  (\<lambda>n. [Element ''size'' [Number n]])
              @ [Element ''Capex (incl. purchase)'' [formatCurrency (total_investment invest)]])])"

definition rental_potential_card :: "AnalysisData \<Rightarrow> node list" where
  "rental_potential_card d =
     (case rent_estimate d of
        None \<Rightarrow> []
      | Some re \<Rightarrow>
          [Element ''Rental potential''
             ([Element ''month'' [formatCurrency (monthly_figure re)]]
              @ when_string (rental_strategy re) (\<lambda>s. [Element ''strategy'' [Shown s]])
              @ when_number (annual_rent re) (\<lambda>n. [Element ''Annual rent'' [formatCurrency n]]))])"

definition yield_payback_card :: "AnalysisData \<Rightarrow> node list" where
  "yield_payback_card d =
     (case financial_metrics d of
        None \<Rightarrow> []
      | Some fm \<Rightarrow>
          [Element ''Yield & payback''
             [Element ''Gross yield'' [ToFixed 1 (gross_yield (metrics fm))],
              Element ''Net yield'' [ToFixed 1 (net_yield (metrics fm))],
              Element ''Net income / yr'' [formatCurrency (annual_net_income (net_income fm))],
              Element ''Payback'' [ToFixed 1 (num_div (months_to_break_even (metrics fm)) 12)]]])"

definition Report_cards :: "upper_casing \<Rightarrow> report_state \<Rightarrow> view" where
  "Report_cards toUpperCase st =
     (if report_loading st then LoadingView
      else if \<not> truthy_opt_bool (success (data st)) then FailureView failure_message
      else ReportView
             (property_info_card (data st)
              @ [Element ''Risk & Notes'' []]
              @ remodel_cost_card (data st)
              @ rental_potential_card (data st)
              @ yield_payback_card (data st)
              @ divisions_section toUpperCase (data st)
              @ cost_summary_section toUpperCase (data st)))"

text \<open>The report page without cards (one column of blocks).\<close>

definition property_information_block :: "AnalysisData \<Rightarrow> node list" where
  "property_information_block d =
     (case property_info d of
        None \<Rightarrow> []
      | Some info \<Rightarrow>
          [Element ''Property Information''
             (when_string (location info) (\<lambda>s. [Element ''Location'' [Shown s]])
              @ when_number (size_m2 info) (\<lambda>n. [Element ''Size'' [Number n]])
              @ when_number (bedrooms info) (\<lambda>n. [Element ''Bedrooms'' [Number n]])
              @ when_number (bathrooms info) (\<lambda>n. [Element ''Bathrooms'' [Number n]]))])"

definition investment_summary_block :: "AnalysisData \<Rightarrow> node list" where
  "investment_summary_block d =
     (case investment d of
        None \<Rightarrow> []
      | Some invest \<Rightarrow>
          [Element ''Investment Summary''
             [Element ''Purchase Price'' [formatCurrency (purchase_price invest)],
              Element ''Remodeling Costs'' [formatCurrency (remodeling_costs invest)],
              Element ''Total Investment'' [formatCurrency (total_investment invest)]]])"

definition financial_metrics_block :: "AnalysisData \<Rightarrow> node list" where
  "financial_metrics_block d =
     (case financial_metrics d of
        None \<Rightarrow> []
      | Some fm \<Rightarrow>
          [Element ''Financial Metrics''
             ([Element ''ROI'' [ToFixed 2 (roi_percentage (metrics fm))],
               Element ''Net Yield'' [ToFixed 2 (net_yield (metrics fm))],
               Element ''Monthly Net Income'' [formatCurrency (monthly_net_income (net_income fm))],
               Element ''Annual Net Income'' [formatCurrency (annual_net_income (net_income fm))]]
              @ (case rent_estimate d of
                   None \<Rightarrow> []
                 | Some re \<Rightarrow>
                     [Element ''Monthly Rent Estimate'' [formatCurrency (monthly_figure re)]]))])"

definition Report_blocks :: "upper_casing \<Rightarrow> report_state \<Rightarrow> view" where
  "Report_blocks toUpperCase st =
     (if report_loading st then LoadingView
      else if \<not> truthy_opt_bool (success (data st)) then FailureView failure_message
      else ReportView
             ([Element ''Property Analysis Report''
                 (when_string (listing_id (data st)) (\<lambda>s. [Element ''Listing ID'' [Shown s]]))]
              @ property_information_block (data st)
              @ investment_summary_block (data st)
              @ financial_metrics_block (data st)
              @ divisions_section toUpperCase (data st)
              @ cost_summary_section toUpperCase (data st)))"

text \<open>The children of the first top-level element with a given name.\<close>

fun section_named :: "string \<Rightarrow> node list \<Rightarrow> node list option" where
  "section_named name [] = None"
| "section_named name (Element n children # rest) =
     (if n = name then Some children else section_named name rest)"
| "section_named name (_ # rest) = section_named name rest"

text \<open>The top-level elements of a view.\<close>

definition sections_of :: "view \<Rightarrow> node list" where
  "sections_of v = (case v of LoadingView \<Rightarrow> [] | FailureView xs \<Rightarrow> xs | ReportView xs \<Rightarrow> xs)"

text \<open>The first and the last child of the first top-level element with a given name.\<close>

definition first_in_section :: "string \<Rightarrow> node list \<Rightarrow> node option" where
  "first_in_section name xs =
     (case section_named name xs of
        None \<Rightarrow> None
      | Some [] \<Rightarrow> None
      | Some (c # cs) \<Rightarrow> Some c)"

definition last_in_section :: "string \<Rightarrow> node list \<Rightarrow> node option" where
  "last_in_section name xs =
     (case section_named name xs of
        None \<Rightarrow> None
      | Some [] \<Rightarrow> None
      | Some (c # cs) \<Rightarrow> Some (last (c # cs)))"

text \<open>
  The earlier report page. Its payload has four optional fields and no success flag; it
  shows the four fields when \<open>link\<close> is truthy and a no-data message otherwise.
\<close>

record LegacyAnalysisData =
  legacy_link :: "js_string option"
  renovation_cost :: "number option"
  monthly_rent_estimate :: "number option"
  roi :: "js_string option"

definition legacy_empty_data :: LegacyAnalysisData where
  "legacy_empty_data =
     \<lparr> legacy_link = None, renovation_cost = None, monthly_rent_estimate = None, roi = None \<rparr>"

definition Report_legacy_mount ::
  "(string \<Rightarrow> string + LegacyAnalysisData) \<Rightarrow> (string \<rightharpoonup> string) \<Rightarrow> LegacyAnalysisData
     \<Rightarrow> LegacyAnalysisData" where
  "Report_legacy_mount parse storage d =
     (case stored_snapshot storage of
        None \<Rightarrow> d
      | Some storedData \<Rightarrow>
          if truthy_string storedData then
            (case parse storedData of Inr parsed \<Rightarrow> parsed | Inl error \<Rightarrow> d)
          else d)"

definition optional_locale_string :: "number option \<Rightarrow> node list" where
  "optional_locale_string v = (case v of None \<Rightarrow> [] | Some n \<Rightarrow> [ToLocaleString n])"

definition Report_legacy :: "LegacyAnalysisData \<Rightarrow> node list" where
  "Report_legacy d =
     Element ''h1'' [Text ''Analysis Report'']
     # (case legacy_link d of
          None \<Rightarrow> [Element ''p'' [Text ''No analysis data available.'']]
        | Some l \<Rightarrow>
            if truthy_string l then
              [Element ''report''
                 [Element ''Property Link'' [Shown l],
                  Element ''Renovation Cost'' (optional_locale_string (renovation_cost d)),
                  Element ''Monthly Rent Estimate'' (optional_locale_string (monthly_rent_estimate d)),
                  Element ''ROI'' (case roi d of None \<Rightarrow> [] | Some r \<Rightarrow> [Shown r])]]
            else [Element ''p'' [Text ''No analysis data available.'']])"


section \<open>A JSON platform for concrete runs\<close>

text \<open>
  The submission flow is stated over any platform. To run it on a concrete response, this
  section gives one platform: JSON values and the two JSON functions of the host
  language on a fragment of JSON. The fragment has null, the booleans, the integers a
  double holds exactly, strings over the model's alphabet with the two-character
  escapes, arrays, and objects whose keys are distinct and are not array indices (the
  host keeps such members in the order of the text, as the association list does). A
  text outside the fragment (a fraction, an exponent, a \<open>\u\<close> escape) is answered like a
  text that is not JSON; the runs below stay inside the fragment.
\<close>

datatype json =
    JNull
  | JBool bool
  | JNumber int
  | JString string
  | JArray "json list"
  | JObject "(string \<times> json) list"

text \<open>
  The control characters and what \<open>JSON.stringify\<close> prints after the backslash for each.
\<close>

definition control_escapes :: "(char \<times> string) list" where
  "control_escapes =
     [(CHR 0x00, ''u0000''), (CHR 0x01, ''u0001''), (CHR 0x02, ''u0002''), (CHR 0x03, ''u0003''),
      (CHR 0x04, ''u0004''), (CHR 0x05, ''u0005''), (CHR 0x06, ''u0006''), (CHR 0x07, ''u0007''),
      (CHR 0x08, ''b''), (CHR 0x09, ''t''), (CHR 0x0A, ''n''), (CHR 0x0B, ''u000b''),
      (CHR 0x0C, ''f''), (CHR 0x0D, ''r''), (CHR 0x0E, ''u000e''), (CHR 0x0F, ''u000f''),
      (CHR 0x10, ''u0010''), (CHR 0x11, ''u0011''), (CHR 0x12, ''u0012''), (CHR 0x13, ''u0013''),
      (CHR 0x14, ''u0014''), (CHR 0x15, ''u0015''), (CHR 0x16, ''u0016''), (CHR 0x17, ''u0017''),
      (CHR 0x18, ''u0018''), (CHR 0x19, ''u0019''), (CHR 0x1A, ''u001a''), (CHR 0x1B, ''u001b''),
      (CHR 0x1C, ''u001c''), (CHR 0x1D, ''u001d''), (CHR 0x1E, ''u001e''), (CHR 0x1F, ''u001f'')]"

definition is_control :: "char \<Rightarrow> bool" where
  "is_control c = (c \<in> set (map fst control_escapes))"

definition escape_char :: "char \<Rightarrow> string" where
  "escape_char c =
     (if c = CHR 0x22 then [CHR 0x5C, CHR 0x22]
      else if c = CHR 0x5C then [CHR 0x5C, CHR 0x5C]
      else (case map_of control_escapes c of
              Some e \<Rightarrow> CHR 0x5C # e
            | None \<Rightarrow> [c]))"

text \<open>A string literal: the escaped characters between double quotes.\<close>

definition quote :: "string \<Rightarrow> string" where
  "quote s = CHR 0x22 # concat (map escape_char s) @ [CHR 0x22]"

text \<open>\<open>JSON.stringify(value)\<close> without an indent argument: no white space is printed.\<close>

fun stringify :: "json \<Rightarrow> string"
  and stringify_elements :: "json list \<Rightarrow> string"
  and stringify_members :: "(string \<times> json) list \<Rightarrow> string" where
  "stringify JNull = ''null''"
| "stringify (JBool b) = (if b then ''true'' else ''false'')"
| "stringify (JNumber n) = (if n < 0 then ''-'' @ decimal (nat (- n)) else decimal (nat n))"
| "stringify (JString s) = quote s"
| "stringify (JArray xs) = ''['' @ stringify_elements xs @ '']''"
| "stringify (JObject ms) = ''{'' @ stringify_members ms @ ''}''"
| "stringify_elements [] = []"
| "stringify_elements [x] = stringify x"
| "stringify_elements (x # y # ys) = stringify x @ '','' @ stringify_elements (y # ys)"
| "stringify_members [] = []"
| "stringify_members [(k, v)] = quote k @ '':'' @ stringify v"
| "stringify_members ((k, v) # m # ms) =
     quote k @ '':'' @ stringify v @ '','' @ stringify_members (m # ms)"

text \<open>\<open>JSON.parse(text)\<close>: white space between tokens is skipped.\<close>

definition json_whitespace :: "char \<Rightarrow> bool" where
  "json_whitespace c = (c \<in> set [CHR 0x20, CHR 0x09, CHR 0x0A, CHR 0x0D])"

definition skip_ws :: "string \<Rightarrow> string" where
  "skip_ws s = dropWhile json_whitespace s"

definition is_digit :: "char \<Rightarrow> bool" where
  "is_digit c = (c \<in> set ''0123456789'')"

definition digit_value :: "char \<Rightarrow> nat" where
  "digit_value c = (case map_of (zip ''0123456789'' [0, 1, 2, 3, 4, 5, 6, 7, 8, 9]) c of
                      Some d \<Rightarrow> d
                    | None \<Rightarrow> 0)"

definition digits_value :: "string \<Rightarrow> nat" where
  "digits_value ds = foldl (\<lambda>a c. 10 * a + digit_value c) 0 ds"

definition unescape :: "char \<Rightarrow> char option" where
  "unescape e =
     map_of [(CHR 0x22, CHR 0x22), (CHR 0x5C, CHR 0x5C), (CHR ''/'', CHR ''/''),
             (CHR ''b'', CHR 0x08), (CHR ''f'', CHR 0x0C), (CHR ''n'', CHR 0x0A),
             (CHR ''r'', CHR 0x0D), (CHR ''t'', CHR 0x09)] e"

text \<open>
  The characters of a string literal after its opening quote, up to the closing quote,
  and the text that follows. A raw control character is not allowed in a literal.
\<close>

fun parse_string :: "string \<Rightarrow> (string \<times> string) option" where
  "parse_string [] = None"
| "parse_string (c # cs) =
     (if c = CHR 0x22 then Some ([], cs)
      else if c = CHR 0x5C then
        (case cs of
           [] \<Rightarrow> None
         | e # r \<Rightarrow>
             (case unescape e of
                None \<Rightarrow> None
              | Some ch \<Rightarrow> map_option (\<lambda>(str, rest). (ch # str, rest)) (parse_string r)))
      else if is_control c then None
      else map_option (\<lambda>(str, rest). (c # str, rest)) (parse_string cs))"

text \<open>An integer literal: an optional minus sign, then digits with no leading zero.\<close>

definition parse_number :: "string \<Rightarrow> (int \<times> string) option" where
  "parse_number s =
     (let negative = (take 1 s = ''-'');
          r = (if negative then drop 1 s else s);
          ds = takeWhile is_digit r;
          rest = dropWhile is_digit r
      in if ds = [] then None
         else if 1 < length ds \<and> take 1 ds = ''0'' then None
         else if take 1 rest \<in> set [''.'', ''e'', ''E''] then None
         else Some (if negative then - int (digits_value ds) else int (digits_value ds), rest))"

text \<open>
  Recursive descent, with fuel for the nesting: a value, the elements of an array after
  its opening bracket, the members of an object after its opening brace. Each returns
  what it read and the text that follows.
\<close>

fun parse_value :: "nat \<Rightarrow> string \<Rightarrow> (json \<times> string) option"
  and parse_elements :: "nat \<Rightarrow> string \<Rightarrow> (json list \<times> string) option"
  and parse_members :: "nat \<Rightarrow> string \<Rightarrow> ((string \<times> json) list \<times> string) option" where
  "parse_value 0 s = None"
| "parse_value (Suc n) s =
     (case skip_ws s of
        [] \<Rightarrow> None
      | c # r \<Rightarrow>
          if c = CHR ''n'' then (if take 3 r = ''ull'' then Some (JNull, drop 3 r) else None)
          else if c = CHR ''t'' then (if take 3 r = ''rue'' then Some (JBool True, drop 3 r) else None)
          else if c = CHR ''f'' then (if take 4 r = ''alse'' then Some (JBool False, drop 4 r) else None)
          else if c = CHR 0x22 then map_option (\<lambda>(str, rest). (JString str, rest)) (parse_string r)
          else if c = CHR ''['' then
            (if take 1 (skip_ws r) = '']'' then Some (JArray [], drop 1 (skip_ws r))
             else map_option (\<lambda>(xs, rest). (JArray xs, rest)) (parse_elements n r))
          else if c = CHR ''{'' then
            (if take 1 (skip_ws r) = ''}'' then Some (JObject [], drop 1 (skip_ws r))
             else map_option (\<lambda>(ms, rest). (JObject ms, rest)) (parse_members n r))
          else map_option (\<lambda>(i, rest). (JNumber i, rest)) (parse_number (c # r)))"
| "parse_elements 0 s = None"
| "parse_elements (Suc n) s =
     (case parse_value n s of
        None \<Rightarrow> None
      | Some (v, r) \<Rightarrow>
          (case skip_ws r of
             [] \<Rightarrow> None
           | c # r' \<Rightarrow>
               if c = CHR '','' then map_option (\<lambda>(xs, rest). (v # xs, rest)) (parse_elements n r')
               else if c = CHR '']'' then Some ([v], r')
               else None))"
| "parse_members 0 s = None"
| "parse_members (Suc n) s =
     (case skip_ws s of
        [] \<Rightarrow> None
      | q # r \<Rightarrow>
          if q \<noteq> CHR 0x22 then None
          else
            (case parse_string r of
               None \<Rightarrow> None
             | Some (k, r1) \<Rightarrow>
                 (case skip_ws r1 of
                    [] \<Rightarrow> None
                  | colon # r2 \<Rightarrow>
                      if colon \<noteq> CHR '':'' then None
                      else
                        (case parse_value n r2 of
                           None \<Rightarrow> None
                         | Some (v, r3) \<Rightarrow>
                             (case skip_ws r3 of
                                [] \<Rightarrow> None
                              | c # r4 \<Rightarrow>
                                  if c = CHR '','' then
                                    map_option (\<lambda>(ms, rest). ((k, v) # ms, rest)) (parse_members n r4)
                                  else if c = CHR ''}'' then Some ([(k, v)], r4)
                                  else None)))))"

text \<open>
  The whole text must be one value, with white space around it at most. The fuel is
  twice the length of the text plus two: a call consumes a character at least every
  second step of the descent.
\<close>

definition parse_json :: "string \<Rightarrow> string + json" where
  "parse_json text =
     (case parse_value (2 * length text + 2) text of
        None \<Rightarrow> Inl ''SyntaxError''
      | Some (v, rest) \<Rightarrow> if skip_ws rest = [] then Inr v else Inl ''SyntaxError'')"

definition json_platform :: "(request \<Rightarrow> fetch_result) \<Rightarrow> json platform" where
  "json_platform transport =
     \<lparr> NEXT_PUBLIC_API_BASE = None,
       fetch = transport,
       JSON_parse = parse_json,
       JSON_stringify = stringify \<rparr>"


section \<open>Concrete runs\<close>

text \<open>Transports that answer every request alike, and the state of a freshly loaded page.\<close>

definition respond :: "nat \<Rightarrow> string \<Rightarrow> request \<Rightarrow> fetch_result" where
  "respond status text req = Response status text"

definition unreachable_server :: "request \<Rightarrow> fetch_result" where
  "unreachable_server req = Rejected (ErrorObject ''Failed to fetch'')"

definition typed_world :: "js_string \<Rightarrow> world" where
  "typed_world s =
     \<lparr> link = s, loading = False, sessionStorage = Map.empty, alerts = [],
       route = ''/'', requests = [] \<rparr>"

text \<open>The link the runs type, and a blank input with white space beyond ASCII.\<close>

definition example_link :: js_string where
  "example_link = str ''https://www.idealista.pt/imovel/1''"

definition blank_link :: js_string where
  "blank_link = [0x20, 0x09, 0xA0, 0x2003, 0x2028, 0xFEFF]"

text \<open>
  The case mappings of the platform on ASCII code units, for runs on ASCII text: on the
  128 ASCII code units they are what \<open>toUpperCase\<close> and \<open>toLowerCase\<close> give for the
  one-unit string. The runs apply them to ASCII code units only (\<open>is_ascii\<close>).
\<close>

definition is_ascii :: "js_string \<Rightarrow> bool" where
  "is_ascii s = list_all (\<lambda>c. c < 0x80) s"

definition toUpperCase_on_ascii :: upper_casing where
  "toUpperCase_on_ascii c = (if 0x61 \<le> c \<and> c \<le> 0x7A then [c - 0x20] else [c])"

definition toLowerCase_on_ascii :: "code_unit \<Rightarrow> js_string" where
  "toLowerCase_on_ascii c = (if 0x41 \<le> c \<and> c \<le> 0x5A then [c + 0x20] else [c])"

text \<open>
  A response body with a space after the colon, as a server may well print it, and the
  same object as \<open>JSON.stringify\<close> prints it.
\<close>

definition spaced_body :: string where
  "spaced_body = ''{'' @ quote ''success'' @ '': true}''"

definition compact_body :: string where
  "compact_body = ''{'' @ quote ''success'' @ '':true}''"

text \<open>A parser for runs in which only the parsed data matters: every text gives the data.\<close>

definition parses_to :: "AnalysisData \<Rightarrow> string \<Rightarrow> string + AnalysisData" where
  "parses_to d text = Inr d"

text \<open>A snapshot with every section present, whose success flag can be set.\<close>

definition kitchen :: Division where
  "kitchen =
     \<lparr> division_id = str ''kitchen_1'', room_type = str ''kitchen'', division_size_m2 = Fin 12,
       images = Some [str ''https://img.example/1.jpg''],
       costs = [(str ''flooring_condition'', Fin 900)], total_cost = Fin 900,
       detailed_notes = Some (str ''worn floor''),
       conditions = Some [(str ''flooring_condition'', Some (Fin 2.5))] \<rparr>"

definition full_snapshot :: "bool option \<Rightarrow> AnalysisData" where
  "full_snapshot flag =
     \<lparr> success = flag,
       listing_id = Some (str ''33445566''),
       property_info = Some \<lparr> location = Some (str ''Lisboa''), size_m2 = Some (Fin 80),
                               bedrooms = Some (Fin 2), bathrooms = Some (Fin 1) \<rparr>,
       investment = Some \<lparr> purchase_price = Fin 200000, remodeling_costs = Fin 900,
                            total_investment = Fin 200900 \<rparr>,
       rehab_costs = Some \<lparr> property_total = Fin 900,
                             summary = Some [(str ''flooring'', Fin 900), (str ''painting'', Fin 0),
                                             (str ''windows'', Fin (- 5)), (str ''doors'', Fin 1)],
                             divisions = Some [kitchen] \<rparr>,
       rent_estimate = Some \<lparr> monthly_rent = Some (Fin 0), total_monthly_rent = Some (Fin 1200),
                               annual_rent = Some (Fin 14400), rental_strategy = Some (str ''per_room'') \<rparr>,
       financial_metrics = Some \<lparr> metrics = \<lparr> roi_percentage = Fin 7, net_yield = Fin 5,
                                               gross_yield = Fin 7, months_to_break_even = Fin 160 \<rparr>,
                                   net_income = \<lparr> monthly_net_income = Fin 900,
                                                  annual_net_income = Fin 10800 \<rparr>,
                                   expenses = \<lparr> total_annual_expenses = Fin 3600 \<rparr> \<rparr> \<rparr>"

definition rendered_state :: "AnalysisData \<Rightarrow> report_state" where
  "rendered_state d = \<lparr> data = d, report_loading = False, console_errors = [] \<rparr>"

section \<open>Properties of the formatting helpers\<close>

lemma unit_of_eq_iff [simp]: "unit_of c = unit_of d \<longleftrightarrow> c = d"
  by (simp add: unit_of_def)

lemma str_eq_iff [simp]: "str s = str t \<longleftrightarrow> s = t"
proof -
  have "inj unit_of"
    by (simp add: inj_def)
  then show ?thesis
    by (simp add: str_def inj_map_eq_map)
qed

lemma split_not_Nil: "split sep s \<noteq> []"
  by (induction s) (auto split: list.splits)

lemma join_append_first: "join sep ((u @ w) # ws) = u @ join sep (w # ws)"
  by (cases ws) simp_all

lemma join_Nil_Cons: "ws \<noteq> [] \<Longrightarrow> join sep ([] # ws) = sep @ join sep ws"
  by (cases ws) simp_all

lemma capitalizeWord_Nil: "capitalizeWord U [] = []"
  by (simp add: capitalizeWord_def)

lemma capitalizeWord_Cons: "capitalizeWord U (c # cs) = U c @ cs"
  by (simp add: capitalizeWord_def)

lemma join_split_label_chars:
  "join (str '' '') (map (capitalizeWord U) (split (unit_of CHR ''_'') s)) = label_chars U True s \<and>
   (case split (unit_of CHR ''_'') s of
      [] \<Rightarrow> True
    | w # ws \<Rightarrow> join (str '' '') (w # map (capitalizeWord U) ws) = label_chars U False s)"
proof (induction s)
  case Nil
  show ?case by (simp add: capitalizeWord_Nil)
next
  case (Cons c cs)
  obtain w ws where sp: "split (unit_of CHR ''_'') cs = w # ws"
    using split_not_Nil [of "unit_of CHR ''_''" cs] by (cases "split (unit_of CHR ''_'') cs") auto
  from Cons sp
  have ih1: "join (str '' '') (capitalizeWord U w # map (capitalizeWord U) ws) = label_chars U True cs"
    and ih2: "join (str '' '') (w # map (capitalizeWord U) ws) = label_chars U False cs"
    by simp_all
  show ?case
  proof (cases "c = unit_of CHR ''_''")
    case True
    then show ?thesis
      using sp ih1 by (simp add: capitalizeWord_Nil join_Nil_Cons str_def)
  next
    case False
    have a: "join (str '' '') ((U c @ w) # map (capitalizeWord U) ws) = U c @ label_chars U False cs"
      using ih2 by (simp only: join_append_first)
    have b: "join (str '' '') (([c] @ w) # map (capitalizeWord U) ws) = [c] @ label_chars U False cs"
      using ih2 by (simp only: join_append_first)
    from False sp a b show ?thesis
      by (simp add: capitalizeWord_Cons)
  qed
qed

lemma formatRoomType_label_chars: "formatRoomType U s = label_chars U True s"
  using join_split_label_chars [of U s] by (simp add: formatRoomType_def)

lemma label_chars_underscore:
  "label_chars U start (a @ unit_of CHR ''_'' # b)
     = label_chars U start a @ unit_of CHR '' '' # label_chars U True b"
  by (induction a arbitrary: start) simp_all

lemma label_chars_token: "unit_of CHR ''_'' \<notin> set cs \<Longrightarrow> label_chars U False cs = cs"
  by (induction cs) auto

text \<open>
  C3. For every condition value \<open>v\<close>: the label is the top tier "Excellent" when
  \<open>v \<ge> 3.5\<close>, the mid tier "Good" when \<open>2.5 \<le> v < 3.5\<close>, "Fair" when \<open>1.5 \<le> v < 2.5\<close>,
  and a bottom-tier label otherwise: "N/A" when the value is absent or zero, "Poor" when
  it is merely low. The boundary values 3.5, 2.5, 1.5, 0 and the absent value map to
  "Excellent", "Good", "Fair", "N/A" and "N/A".
\<close>

theorem getConditionLabel_tiers:
  "(num_ge v 3.5 \<longrightarrow> getConditionLabel (Some v) = ''Excellent'') \<and>
   (num_ge v 2.5 \<and> num_lt v 3.5 \<longrightarrow> getConditionLabel (Some v) = ''Good'') \<and>
   (num_ge v 1.5 \<and> num_lt v 2.5 \<longrightarrow> getConditionLabel (Some v) = ''Fair'') \<and>
   (num_lt v 1.5 \<and> v \<noteq> Fin 0 \<longrightarrow> getConditionLabel (Some v) = ''Poor'') \<and>
   getConditionLabel (Some (Fin 0)) = ''N/A'' \<and>
   getConditionLabel None = ''N/A'' \<and>
   getConditionLabel (Some (Fin 3.5)) = ''Excellent'' \<and>
   getConditionLabel (Some (Fin 2.5)) = ''Good'' \<and>
   getConditionLabel (Some (Fin 1.5)) = ''Fair''"
  by (cases v) (auto simp: getConditionLabel_def)

theorem getConditionLabel_tiers_witness:
  "num_ge (Fin 4) 3.5 \<and> getConditionLabel (Some (Fin 4)) = ''Excellent'' \<and>
   num_ge (Fin 3) 2.5 \<and> num_lt (Fin 3) 3.5 \<and> getConditionLabel (Some (Fin 3)) = ''Good'' \<and>
   num_ge (Fin 2) 1.5 \<and> num_lt (Fin 2) 2.5 \<and> getConditionLabel (Some (Fin 2)) = ''Fair'' \<and>
   num_lt (Fin 1) 1.5 \<and> Fin 1 \<noteq> Fin 0 \<and> getConditionLabel (Some (Fin 1)) = ''Poor''"
  using getConditionLabel_tiers [of "Fin 4"] getConditionLabel_tiers [of "Fin 3"]
    getConditionLabel_tiers [of "Fin 2"] getConditionLabel_tiers [of "Fin 1"]
  by simp

text \<open>
  C6, as the specification states it, fails: the code upper-cases the first character of
  each token and keeps the rest of the token as it is; it does not lower-case it. On the
  ASCII input \<open>lIVING_rOOM\<close> the code gives \<open>LIVING ROOM\<close>, and title case would be
  \<open>Living Room\<close>.
\<close>

theorem formatRoomType_not_title_case:
  "is_ascii (str ''lIVING_rOOM'') \<and>
   formatRoomType toUpperCase_on_ascii (str ''lIVING_rOOM'') = str ''LIVING ROOM'' \<and>
   formatLabel_spec toUpperCase_on_ascii toLowerCase_on_ascii (str ''lIVING_rOOM'')
     = str ''Living Room'' \<and>
   str ''LIVING ROOM'' \<noteq> str ''Living Room''"
  by (simp add: formatRoomType_def formatLabel_spec_def capitalizeWord_def
      titleCaseWord_spec_def toUpperCase_on_ascii_def toLowerCase_on_ascii_def
      is_ascii_def str_def unit_of_def)

text \<open>
  C6, amended. For every input string, and whatever the platform's upper-casing gives
  (also when it gives several code units for one), \<open>formatRoomType\<close> and
  \<open>formatCategoryName\<close> split on underscores, upper-case the first code unit of each
  token and leave the other code units of the token unchanged, and rejoin with single
  spaces. In full: the empty string gives the empty string; a non-empty string without
  an underscore gives the upper-casing of its first code unit followed by the rest
  unchanged; and an underscore anywhere becomes one space between the formats of the
  text before it and of the text after it. Both functions give the same result. In
  particular, the platform's upper-casing of \<open>l\<close>, \<open>r\<close>, \<open>f\<close> and \<open>c\<close> being \<open>L\<close>, \<open>R\<close>,
  \<open>F\<close> and \<open>C\<close>, \<open>formatRoomType "living_room" = "Living Room"\<close> and
  \<open>formatCategoryName "flooring_condition" = "Flooring Condition"\<close>.
\<close>

theorem format_label_capitalizes_tokens:
  "formatRoomType U [] = [] \<and>
   (unit_of CHR ''_'' \<notin> set (c # cs) \<longrightarrow> formatRoomType U (c # cs) = U c @ cs) \<and>
   formatRoomType U (a @ unit_of CHR ''_'' # b)
     = formatRoomType U a @ unit_of CHR '' '' # formatRoomType U b \<and>
   formatCategoryName U s = formatRoomType U s \<and>
   (U (unit_of CHR ''l'') = str ''L'' \<and> U (unit_of CHR ''r'') = str ''R'' \<longrightarrow>
      formatRoomType U (str ''living_room'') = str ''Living Room'') \<and>
   (U (unit_of CHR ''f'') = str ''F'' \<and> U (unit_of CHR ''c'') = str ''C'' \<longrightarrow>
      formatCategoryName U (str ''flooring_condition'') = str ''Flooring Condition'')"
proof -
  have e: "formatRoomType U [] = []"
    by (simp add: formatRoomType_label_chars)
  have t: "unit_of CHR ''_'' \<notin> set (c # cs) \<longrightarrow> formatRoomType U (c # cs) = U c @ cs"
    by (auto simp: formatRoomType_label_chars label_chars_token)
  have u: "formatRoomType U (a @ unit_of CHR ''_'' # b)
      = formatRoomType U a @ unit_of CHR '' '' # formatRoomType U b"
    by (simp add: formatRoomType_label_chars label_chars_underscore)
  have q: "formatCategoryName U s = formatRoomType U s"
    by (simp add: formatRoomType_def formatCategoryName_def)
  have x1: "U (unit_of CHR ''l'') = str ''L'' \<and> U (unit_of CHR ''r'') = str ''R'' \<longrightarrow>
      formatRoomType U (str ''living_room'') = str ''Living Room''"
    by (simp add: formatRoomType_def capitalizeWord_def str_def unit_of_def)
  have x2: "U (unit_of CHR ''f'') = str ''F'' \<and> U (unit_of CHR ''c'') = str ''C'' \<longrightarrow>
      formatCategoryName U (str ''flooring_condition'') = str ''Flooring Condition''"
    by (simp add: formatCategoryName_def capitalizeWord_def str_def unit_of_def)
  show ?thesis
    using e t u q x1 x2 by blast
qed

theorem format_label_capitalizes_tokens_witness:
  "is_ascii (str ''living_room'') \<and> is_ascii (str ''flooring_condition'') \<and>
   unit_of CHR ''_'' \<notin> set (unit_of CHR ''k'' # str ''ITCHEN'') \<and>
   formatRoomType toUpperCase_on_ascii (unit_of CHR ''k'' # str ''ITCHEN'') = str ''KITCHEN'' \<and>
   toUpperCase_on_ascii (unit_of CHR ''l'') = str ''L'' \<and>
   toUpperCase_on_ascii (unit_of CHR ''r'') = str ''R'' \<and>
   formatRoomType toUpperCase_on_ascii (str ''living_room'') = str ''Living Room'' \<and>
   toUpperCase_on_ascii (unit_of CHR ''f'') = str ''F'' \<and>
   toUpperCase_on_ascii (unit_of CHR ''c'') = str ''C'' \<and>
   formatCategoryName toUpperCase_on_ascii (str ''flooring_condition'') = str ''Flooring Condition''"
proof -
  have a: "is_ascii (str ''living_room'') \<and> is_ascii (str ''flooring_condition'')"
    by (simp add: is_ascii_def str_def unit_of_def)
  have n: "unit_of CHR ''_'' \<notin> set (unit_of CHR ''k'' # str ''ITCHEN'')"
    by (simp add: str_def)
  have k: "toUpperCase_on_ascii (unit_of CHR ''k'') @ str ''ITCHEN'' = str ''KITCHEN''"
    by (simp add: toUpperCase_on_ascii_def str_def unit_of_def)
  have l: "toUpperCase_on_ascii (unit_of CHR ''l'') = str ''L''"
    and r: "toUpperCase_on_ascii (unit_of CHR ''r'') = str ''R''"
    and f: "toUpperCase_on_ascii (unit_of CHR ''f'') = str ''F''"
    and c: "toUpperCase_on_ascii (unit_of CHR ''c'') = str ''C''"
    by (simp_all add: toUpperCase_on_ascii_def str_def unit_of_def)
  from format_label_capitalizes_tokens
    [where U = toUpperCase_on_ascii and c = "unit_of CHR ''k''" and cs = "str ''ITCHEN''"
       and a = "[]" and b = "[]" and s = "[]"]
  have r1: "formatRoomType toUpperCase_on_ascii (unit_of CHR ''k'' # str ''ITCHEN'') = str ''KITCHEN''"
    and r2: "formatRoomType toUpperCase_on_ascii (str ''living_room'') = str ''Living Room''"
    and r3: "formatCategoryName toUpperCase_on_ascii (str ''flooring_condition'')
               = str ''Flooring Condition''"
    using n k l r f c by (simp_all only: simp_thms)
  show ?thesis
    using a n l r f c r1 r2 r3 by (simp only: simp_thms)
qed

text \<open>
  C9. \<open>formatRoomType\<close> and \<open>formatCategoryName\<close> are extensionally equal: they give the
  same result on every input string.
\<close>

theorem formatRoomType_eq_formatCategoryName:
  "formatRoomType U s = formatCategoryName U s"
  by (simp add: formatRoomType_def formatCategoryName_def)

theorem formatRoomType_eq_formatCategoryName_witness:
  "formatRoomType toUpperCase_on_ascii (str ''living_room'')
     = formatCategoryName toUpperCase_on_ascii (str ''living_room'') \<and>
   formatCategoryName toUpperCase_on_ascii (str ''living_room'') = str ''Living Room''"
  using formatRoomType_eq_formatCategoryName [of toUpperCase_on_ascii "str ''living_room''"]
  by (simp add: formatCategoryName_def capitalizeWord_def toUpperCase_on_ascii_def
      str_def unit_of_def)


section \<open>Properties of the submission flow\<close>

lemma trim_whitespace_only:
  assumes "\<forall>c \<in> set s. is_whitespace c"
  shows "trim s = []"
  using assms by (auto simp: trim_def dest: set_dropWhileD)

lemma trim_nonempty_truthy: "trim s \<noteq> [] \<Longrightarrow> truthy_string s"
  by (auto simp: trim_def truthy_string_def)

lemma trim_Nil_iff: "trim s = [] \<longleftrightarrow> (\<forall>c \<in> set s. is_whitespace c)"
proof
  assume "trim s = []"
  then have a: "\<forall>x \<in> set (dropWhile is_whitespace s). is_whitespace x"
    by (simp add: trim_def dropWhile_eq_Nil_conv)
  have "dropWhile is_whitespace s = []"
  proof (rule ccontr)
    assume n: "dropWhile is_whitespace s \<noteq> []"
    then have "\<not> is_whitespace (hd (dropWhile is_whitespace s))"
      by (rule hd_dropWhile)
    moreover have "hd (dropWhile is_whitespace s) \<in> set (dropWhile is_whitespace s)"
      using n by simp
    ultimately show False
      using a by blast
  qed
  then show "\<forall>c \<in> set s. is_whitespace c"
    by (simp add: dropWhile_eq_Nil_conv)
next
  assume "\<forall>c \<in> set s. is_whitespace c"
  then show "trim s = []"
    by (rule trim_whitespace_only)
qed

lemma trim_example_link: "trim example_link \<noteq> []"
  by (simp add: trim_def is_whitespace_def example_link_def str_def unit_of_def)

text \<open>
  C4. For every input string that is empty or consists of white space only (any white
  space or line terminator that \<open>trim\<close> removes, ASCII or not), submitting issues no
  outbound call and leaves the stored snapshot unchanged: the handler returns after the
  warning, and the warning is all it has added to the state.
\<close>

theorem handleSubmit_blank_input:
  assumes "\<forall>c \<in> set (link w). is_whitespace c"
  shows "requests (handleSubmit p w) = requests w \<and>
         sessionStorage (handleSubmit p w) = sessionStorage w \<and>
         handleSubmit p w = w\<lparr> alerts := alerts w @ [''Please enter a property link''] \<rparr>"
  using trim_whitespace_only [OF assms] by (simp add: handleSubmit_def)

theorem handleSubmit_blank_input_witness:
  "list_all is_whitespace (link (typed_world blank_link)) \<and>
   list_all is_whitespace (link (typed_world [])) \<and>
   requests (handleSubmit (json_platform (respond 200 compact_body)) (typed_world blank_link)) = [] \<and>
   alerts (handleSubmit (json_platform (respond 200 compact_body)) (typed_world blank_link))
     = [''Please enter a property link''] \<and>
   requests (handleSubmit (json_platform (respond 200 compact_body)) (typed_world [])) = []"
proof -
  have h: "\<forall>c \<in> set (link (typed_world blank_link)). is_whitespace c"
    by (simp add: typed_world_def blank_link_def is_whitespace_def)
  have e: "\<forall>c \<in> set (link (typed_world [])). is_whitespace c"
    by (simp add: typed_world_def)
  show ?thesis
    using h e
      handleSubmit_blank_input [OF h, of "json_platform (respond 200 compact_body)"]
      handleSubmit_blank_input [OF e, of "json_platform (respond 200 compact_body)"]
    by (simp add: typed_world_def list_all_iff)
qed

text \<open>
  C5, as the specification states it, fails for a network error: \<open>fetch\<close> rejects before
  any response exists, and the alert carries the message of that rejection, with no
  status and no body text in it.
\<close>

theorem handleSubmit_network_error_has_no_status:
  "alerts (handleSubmit (json_platform unreachable_server)
             (typed_world example_link))
     = [''Failed to analyze property: Failed to fetch''] \<and>
   \<not> list_ex is_digit
       (last (alerts (handleSubmit (json_platform unreachable_server)
                        (typed_world example_link))))"
  using trim_example_link
  by (simp add: handleSubmit_def analyzeProperty_def json_platform_def unreachable_server_def
      typed_world_def errorMessage_def is_digit_def Let_def)

text \<open>
  C5, amended. For every submission of a non-blank input that fails in transport: when
  the response has a non-success status, the alert embeds the status and the response
  body text; when \<open>fetch\<close> itself rejects (a network error), the alert embeds the message
  of the thrown error. In both cases the loading flag is false again, the submit control
  is enabled, the input text is unchanged, nothing is written to session storage and no
  navigation occurs.
\<close>

theorem handleSubmit_transport_failure:
  assumes "trim (link w) \<noteq> []"
    and "fetch p (analyze_request p (link w)) = Rejected (ErrorObject message) \<or>
         (fetch p (analyze_request p (link w)) = Response status errorText \<and> \<not> response_ok status)"
  shows "(fetch p (analyze_request p (link w)) = Response status errorText \<longrightarrow>
            alerts (handleSubmit p w) =
              alerts w @ [''Failed to analyze property: Failed to analyze property: ''
                          @ decimal status @ '' '' @ errorText]) \<and>
         (fetch p (analyze_request p (link w)) = Rejected (ErrorObject message) \<longrightarrow>
            alerts (handleSubmit p w) = alerts w @ [''Failed to analyze property: '' @ message]) \<and>
         \<not> loading (handleSubmit p w) \<and>
         \<not> submit_disabled (handleSubmit p w) \<and>
         link (handleSubmit p w) = link w \<and>
         sessionStorage (handleSubmit p w) = sessionStorage w \<and>
         route (handleSubmit p w) = route w"
  using assms trim_nonempty_truthy [of "link w"]
  by (auto simp: handleSubmit_def analyzeProperty_def errorMessage_def submit_disabled_def Let_def)

theorem handleSubmit_transport_failure_witness:
  "trim (link (typed_world example_link)) \<noteq> [] \<and>
   fetch (json_platform (respond 500 ''Internal Server Error''))
     (analyze_request (json_platform (respond 500 ''Internal Server Error''))
        (link (typed_world example_link)))
     = Response 500 ''Internal Server Error'' \<and>
   \<not> response_ok 500 \<and>
   alerts (handleSubmit (json_platform (respond 500 ''Internal Server Error''))
             (typed_world example_link))
     = [''Failed to analyze property: Failed to analyze property: 500 Internal Server Error''] \<and>
   \<not> loading (handleSubmit (json_platform (respond 500 ''Internal Server Error''))
                 (typed_world example_link)) \<and>
   fetch (json_platform unreachable_server)
     (analyze_request (json_platform unreachable_server)
        (link (typed_world example_link)))
     = Rejected (ErrorObject ''Failed to fetch'') \<and>
   alerts (handleSubmit (json_platform unreachable_server)
             (typed_world example_link))
     = [''Failed to analyze property: Failed to fetch'']"
proof -
  let ?w = "typed_world example_link"
  let ?p = "json_platform (respond 500 ''Internal Server Error'')"
  let ?q = "json_platform unreachable_server"
  have t: "trim (link ?w) \<noteq> []"
    using trim_example_link by (simp add: typed_world_def)
  have f: "fetch ?p (analyze_request ?p (link ?w)) = Response 500 ''Internal Server Error''"
    by (simp add: json_platform_def respond_def)
  have g: "fetch ?q (analyze_request ?q (link ?w)) = Rejected (ErrorObject ''Failed to fetch'')"
    by (simp add: json_platform_def unreachable_server_def)
  have n: "\<not> response_ok 500"
    by (simp add: response_ok_def)
  have d: "decimal 500 = ''500''"
    by code_simp
  have a: "alerts ?w = []"
    by (simp add: typed_world_def)
  from handleSubmit_transport_failure [of ?w ?p "''none''" 500 "''Internal Server Error''"] t f n
  have r1: "alerts (handleSubmit ?p ?w)
      = [''Failed to analyze property: Failed to analyze property: 500 Internal Server Error'']"
    and r2: "\<not> loading (handleSubmit ?p ?w)"
    by (simp_all add: d a)
  from handleSubmit_transport_failure [of ?w ?q "''Failed to fetch''" 0 "[]"] t g
  have r3: "alerts (handleSubmit ?q ?w) = [''Failed to analyze property: Failed to fetch'']"
    by (simp add: a)
  show ?thesis
    using t f n g r1 r2 r3 by simp
qed

text \<open>
  C2, as the specification states it, fails: what is stored is not the response text but
  the re-serialisation of its parsed value. A response body with a space after the colon
  is stored without the space.
\<close>

theorem handleSubmit_stored_text_differs:
  "sessionStorage (handleSubmit (json_platform (respond 200 spaced_body))
                     (typed_world example_link)) ''analysisData''
     = Some compact_body \<and>
   compact_body \<noteq> spaced_body"
proof -
  have p: "parse_json spaced_body = Inr (JObject [(''success'', JBool True)])"
    by code_simp
  have s: "stringify (JObject [(''success'', JBool True)]) = compact_body"
    by code_simp
  have n: "compact_body \<noteq> spaced_body"
    by code_simp
  have st: "sessionStorage (handleSubmit (json_platform (respond 200 spaced_body))
                     (typed_world example_link)) ''analysisData''
      = Some (stringify (JObject [(''success'', JBool True)]))"
    using trim_example_link
    by (simp add: handleSubmit_def analyzeProperty_def json_platform_def respond_def
        response_ok_def typed_world_def Let_def p del: stringify.simps)
  show ?thesis
    unfolding st s using n by simp
qed

text \<open>
  C2, amended. For every successful response (any body that parses), the value written
  to session storage under the key \<open>analysisData\<close> is the serialisation
  \<open>JSON.stringify\<close> gives for the parsed body, and it is exactly the string the report
  view reads on its next mount and hands to its parser. The stored string is the
  response text itself whenever that text already is the serialisation of the value it
  parses to; other response texts are stored re-serialised, not byte for byte.
\<close>

theorem handleSubmit_stores_serialisation:
  assumes "trim (link w) \<noteq> []"
    and "fetch p (analyze_request p (link w)) = Response status text"
    and "response_ok status"
    and "JSON_parse p text = Inr v"
  shows "sessionStorage (handleSubmit p w) ''analysisData'' = Some (JSON_stringify p v) \<and>
         stored_snapshot (sessionStorage (handleSubmit p w)) = Some (JSON_stringify p v) \<and>
         route (handleSubmit p w) = ''/report'' \<and>
         (JSON_stringify p v = text \<longrightarrow>
            stored_snapshot (sessionStorage (handleSubmit p w)) = Some text) \<and>
         (truthy_string (JSON_stringify p v) \<and> parse (JSON_stringify p v) = Inr d \<longrightarrow>
            data (Report_mount parse (sessionStorage (handleSubmit p w)) st) = d)"
  using assms
  by (simp add: handleSubmit_def analyzeProperty_def stored_snapshot_def Report_mount_def Let_def)

theorem handleSubmit_stores_serialisation_witness:
  "trim (link (typed_world example_link)) \<noteq> [] \<and>
   fetch (json_platform (respond 200 compact_body))
     (analyze_request (json_platform (respond 200 compact_body))
        (link (typed_world example_link)))
     = Response 200 compact_body \<and>
   response_ok 200 \<and>
   JSON_parse (json_platform (respond 200 compact_body)) compact_body
     = Inr (JObject [(''success'', JBool True)]) \<and>
   JSON_stringify (json_platform (respond 200 compact_body)) (JObject [(''success'', JBool True)])
     = compact_body \<and>
   truthy_string compact_body \<and>
   parses_to (full_snapshot (Some True)) compact_body = Inr (full_snapshot (Some True)) \<and>
   stored_snapshot (sessionStorage (handleSubmit (json_platform (respond 200 compact_body))
                      (typed_world example_link))) = Some compact_body \<and>
   data (Report_mount (parses_to (full_snapshot (Some True)))
           (sessionStorage (handleSubmit (json_platform (respond 200 compact_body))
              (typed_world example_link)))
           initial_report_state) = full_snapshot (Some True)"
proof -
  let ?w = "typed_world example_link"
  let ?p = "json_platform (respond 200 compact_body)"
  let ?v = "JObject [(''success'', JBool True)]"
  have t: "trim (link ?w) \<noteq> []"
    using trim_example_link by (simp add: typed_world_def)
  have f: "fetch ?p (analyze_request ?p (link ?w)) = Response 200 compact_body"
    by (simp add: json_platform_def respond_def)
  have k: "response_ok 200"
    by (simp add: response_ok_def)
  have pj: "parse_json compact_body = Inr ?v"
    by code_simp
  have sj: "stringify ?v = compact_body"
    by code_simp
  have p: "JSON_parse ?p compact_body = Inr ?v"
    by (simp add: json_platform_def pj)
  have s: "JSON_stringify ?p ?v = compact_body"
    by (simp add: json_platform_def compact_body_def)
  have y: "truthy_string compact_body"
    by (simp add: truthy_string_def compact_body_def)
  have q: "parses_to (full_snapshot (Some True)) compact_body = Inr (full_snapshot (Some True))"
    by (simp add: parses_to_def)
  show ?thesis
    using handleSubmit_stores_serialisation
      [OF t f k p, of "parses_to (full_snapshot (Some True))" "full_snapshot (Some True)"
         initial_report_state]
      t f k p s y q
    by simp
qed


section \<open>Properties of the report view\<close>

text \<open>
  The earlier page never reads a success flag. The snapshot type of the two layouts has
  no \<open>link\<close> field, and for a snapshot without a truthy \<open>link\<close> the earlier page shows
  its no-data message and none of its fields.
\<close>

lemma Report_legacy_no_link:
  "\<not> truthy_opt_string (legacy_link d) \<Longrightarrow>
   Report_legacy d = [Element ''h1'' [Text ''Analysis Report''],
                      Element ''p'' [Text ''No analysis data available.'']]"
  by (auto simp: Report_legacy_def truthy_opt_string_def split: option.splits)

text \<open>
  C1. For every stored snapshot whose success flag is false or absent, the render of the
  report view, in either layout, returns the failure message and nothing else: no
  property, investment, rent, metrics or division section, whatever else the parsed
  payload holds.
\<close>

theorem Report_failure_only:
  assumes "storage ''analysisData'' = Some storedData"
    and "truthy_string storedData"
    and "parse storedData = Inr parsed"
    and "success parsed = None \<or> success parsed = Some False"
  shows "Report_cards U (Report_mount parse storage initial_report_state) = FailureView failure_message \<and>
         Report_blocks U (Report_mount parse storage initial_report_state) = FailureView failure_message"
  using assms
  by (auto simp: Report_cards_def Report_blocks_def Report_mount_def stored_snapshot_def
      initial_report_state_def truthy_opt_bool_def Let_def)

theorem Report_failure_only_witness:
  "[''analysisData'' \<mapsto> compact_body] ''analysisData'' = Some compact_body \<and>
   truthy_string compact_body \<and>
   parses_to (full_snapshot (Some False)) compact_body = Inr (full_snapshot (Some False)) \<and>
   success (full_snapshot (Some False)) = Some False \<and>
   property_info (full_snapshot (Some False)) \<noteq> None \<and>
   rehab_costs (full_snapshot (Some False)) \<noteq> None \<and>
   Report_cards toUpperCase_on_ascii (Report_mount (parses_to (full_snapshot (Some False)))
                   [''analysisData'' \<mapsto> compact_body] initial_report_state)
     = FailureView failure_message \<and>
   Report_blocks toUpperCase_on_ascii (Report_mount (parses_to (full_snapshot (Some False)))
                    [''analysisData'' \<mapsto> compact_body] initial_report_state)
     = FailureView failure_message"
proof -
  have s: "[''analysisData'' \<mapsto> compact_body] ''analysisData'' = Some compact_body"
    by simp
  have y: "truthy_string compact_body"
    by (simp add: truthy_string_def compact_body_def)
  have q: "parses_to (full_snapshot (Some False)) compact_body = Inr (full_snapshot (Some False))"
    by (simp add: parses_to_def)
  have f: "success (full_snapshot (Some False)) = None \<or> success (full_snapshot (Some False)) = Some False"
    by (simp add: full_snapshot_def)
  have o: "property_info (full_snapshot (Some False)) \<noteq> None \<and>
           rehab_costs (full_snapshot (Some False)) \<noteq> None"
    by (simp add: full_snapshot_def)
  have f2: "success (full_snapshot (Some False)) = Some False"
    by (simp add: full_snapshot_def)
  show ?thesis
    using Report_failure_only
      [where storage = "[''analysisData'' \<mapsto> compact_body]" and storedData = compact_body
         and parse = "parses_to (full_snapshot (Some False))"
         and parsed = "full_snapshot (Some False)" and U = toUpperCase_on_ascii]
      s y q f f2 o
    by simp
qed

lemma summary_items_member:
  "Item category [Shown (formatCategoryName U category), formatCurrency cost]
       \<in> set (summary_items U entries)
     \<longleftrightarrow> (category, cost) \<in> set entries \<and> num_gt cost 0"
  by (auto simp: summary_items_def formatCurrency_def)

lemma section_named_append_miss:
  "section_named name xs = None \<Longrightarrow> section_named name (xs @ ys) = section_named name ys"
  by (induction name xs rule: section_named.induct) (auto split: if_splits)

lemma section_named_append_hit:
  "section_named name xs = Some c \<Longrightarrow> section_named name (xs @ ys) = Some c"
  by (induction name xs rule: section_named.induct) (auto split: if_splits)

text \<open>Each part of a page holds at most one element, under its own name.\<close>

lemma property_info_card_other:
  "name \<noteq> ''Property Info'' \<Longrightarrow> section_named name (property_info_card d) = None"
  by (simp add: property_info_card_def split: option.splits)

lemma remodel_cost_card_other:
  "name \<noteq> ''Estimated remodel cost'' \<Longrightarrow> section_named name (remodel_cost_card d) = None"
  by (simp add: remodel_cost_card_def split: option.splits)

lemma rental_potential_card_other:
  "name \<noteq> ''Rental potential'' \<Longrightarrow> section_named name (rental_potential_card d) = None"
  by (simp add: rental_potential_card_def split: option.splits)

lemma yield_payback_card_other:
  "name \<noteq> ''Yield & payback'' \<Longrightarrow> section_named name (yield_payback_card d) = None"
  by (simp add: yield_payback_card_def split: option.splits)

lemma divisions_section_other:
  "name \<noteq> ''Divisions & Remodeling Costs'' \<Longrightarrow> section_named name (divisions_section U d) = None"
  by (simp add: divisions_section_def split: option.splits)

lemma property_information_block_other:
  "name \<noteq> ''Property Information'' \<Longrightarrow> section_named name (property_information_block d) = None"
  by (simp add: property_information_block_def split: option.splits)

lemma investment_summary_block_other:
  "name \<noteq> ''Investment Summary'' \<Longrightarrow> section_named name (investment_summary_block d) = None"
  by (simp add: investment_summary_block_def split: option.splits)

lemma financial_metrics_block_other:
  "name \<noteq> ''Financial Metrics'' \<Longrightarrow> section_named name (financial_metrics_block d) = None"
  by (simp add: financial_metrics_block_def split: option.splits)

lemmas section_other =
  property_info_card_other remodel_cost_card_other rental_potential_card_other
  yield_payback_card_other divisions_section_other property_information_block_other
  investment_summary_block_other financial_metrics_block_other

text \<open>
  C8. For every category-level cost-summary mapping of a successful snapshot, the summary
  that either layout renders holds exactly the entries with a strictly positive cost:
  an entry is shown if and only if it is in the mapping and its cost is above zero, so
  an entry with cost 0 or a negative cost is left out and an entry with cost 1 is shown.
\<close>

theorem cost_summary_positive_entries:
  assumes "\<not> report_loading st"
    and "success (data st) = Some True"
    and "rehab_costs (data st) = Some rc"
    and "summary rc = Some entries"
  shows "section_named ''Cost Summary by Category'' (sections_of (Report_cards U st))
           = Some (summary_items U entries) \<and>
         section_named ''Cost Summary by Category'' (sections_of (Report_blocks U st))
           = Some (summary_items U entries) \<and>
         length (summary_items U entries) = length (filter (\<lambda>e. num_gt (snd e) 0) entries) \<and>
         (\<forall>category cost.
            Item category [Shown (formatCategoryName U category), formatCurrency cost]
              \<in> set (summary_items U entries)
            \<longleftrightarrow> (category, cost) \<in> set entries \<and> num_gt cost 0)"
proof -
  have s: "cost_summary_section U (data st)
             = [Element ''Cost Summary by Category'' (summary_items U entries)]"
    using assms by (simp add: cost_summary_section_def)
  have c: "section_named ''Cost Summary by Category''
             (property_info_card (data st) @ [Element ''Risk & Notes'' []]
              @ remodel_cost_card (data st) @ rental_potential_card (data st)
              @ yield_payback_card (data st) @ divisions_section U (data st)
              @ cost_summary_section U (data st)) = Some (summary_items U entries)"
    by (simp add: section_named_append_miss section_other s)
  have b: "section_named ''Cost Summary by Category''
             ([Element ''Property Analysis Report''
                 (when_string (listing_id (data st)) (\<lambda>s. [Element ''Listing ID'' [Shown s]]))]
              @ property_information_block (data st) @ investment_summary_block (data st)
              @ financial_metrics_block (data st) @ divisions_section U (data st)
              @ cost_summary_section U (data st)) = Some (summary_items U entries)"
    by (simp add: section_named_append_miss section_other s)
  have l: "length (summary_items U entries) = length (filter (\<lambda>e. num_gt (snd e) 0) entries)"
    by (simp add: summary_items_def case_prod_unfold)
  show ?thesis
    using assms c b l
    by (simp add: Report_cards_def Report_blocks_def sections_of_def truthy_opt_bool_def
        summary_items_member)
qed

theorem cost_summary_positive_entries_witness:
  "\<not> report_loading (rendered_state (full_snapshot (Some True))) \<and>
   success (data (rendered_state (full_snapshot (Some True)))) = Some True \<and>
   section_named ''Cost Summary by Category''
       (sections_of (Report_cards toUpperCase_on_ascii (rendered_state (full_snapshot (Some True)))))
     = Some [Item (str ''flooring'') [Shown (str ''Flooring''), formatCurrency (Fin 900)],
             Item (str ''doors'') [Shown (str ''Doors''), formatCurrency (Fin 1)]] \<and>
   section_named ''Cost Summary by Category''
       (sections_of (Report_blocks toUpperCase_on_ascii (rendered_state (full_snapshot (Some True)))))
     = Some [Item (str ''flooring'') [Shown (str ''Flooring''), formatCurrency (Fin 900)],
             Item (str ''doors'') [Shown (str ''Doors''), formatCurrency (Fin 1)]]"
proof -
  let ?st = "rendered_state (full_snapshot (Some True))"
  let ?rc = "\<lparr> property_total = Fin 900,
               summary = Some [(str ''flooring'', Fin 900), (str ''painting'', Fin 0),
                               (str ''windows'', Fin (- 5)), (str ''doors'', Fin 1)],
               divisions = Some [kitchen] \<rparr>"
  let ?entries = "[(str ''flooring'', Fin 900), (str ''painting'', Fin 0),
                   (str ''windows'', Fin (- 5)), (str ''doors'', Fin 1)]"
  have l: "\<not> report_loading ?st"
    by (simp add: rendered_state_def)
  have k: "success (data ?st) = Some True"
    by (simp add: rendered_state_def full_snapshot_def)
  have r: "rehab_costs (data ?st) = Some ?rc"
    by (simp add: rendered_state_def full_snapshot_def)
  have e: "summary ?rc = Some ?entries"
    by simp
  have i: "summary_items toUpperCase_on_ascii ?entries
      = [Item (str ''flooring'') [Shown (str ''Flooring''), formatCurrency (Fin 900)],
         Item (str ''doors'') [Shown (str ''Doors''), formatCurrency (Fin 1)]]"
    by (simp add: summary_items_def formatCategoryName_def capitalizeWord_def
        toUpperCase_on_ascii_def str_def unit_of_def)
  show ?thesis
    using cost_summary_positive_entries [OF l k r e, of toUpperCase_on_ascii] l k by (simp add: i)
qed

text \<open>
  C10. The rental display treats a zero \<open>monthly_rent\<close> like an absent one: for every rent
  estimate whose \<open>monthly_rent\<close> is 0 or absent and whose \<open>total_monthly_rent\<close> is present
  and not zero, the displayed monthly figure is \<open>total_monthly_rent\<close>; and the displayed
  figure is 0 only when both are absent or zero. The displayed figure is the one that
  the page with cards formats first in its rental card, and that the page without cards
  formats last in its metrics block.
\<close>

theorem monthly_figure_fallback:
  "((monthly_rent re = None \<or> monthly_rent re = Some (Fin 0)) \<and>
      total_monthly_rent re = Some t \<and> t \<noteq> Fin 0 \<longrightarrow> monthly_figure re = t) \<and>
   (monthly_figure re = Fin 0 \<longrightarrow>
      (monthly_rent re = None \<or> monthly_rent re = Some (Fin 0)) \<and>
      (total_monthly_rent re = None \<or> total_monthly_rent re = Some (Fin 0))) \<and>
   (\<not> report_loading st \<and> success (data st) = Some True \<and> rent_estimate (data st) = Some re \<longrightarrow>
      first_in_section ''Rental potential'' (sections_of (Report_cards U st))
        = Some (Element ''month'' [formatCurrency (monthly_figure re)])) \<and>
   (\<not> report_loading st \<and> success (data st) = Some True \<and> rent_estimate (data st) = Some re \<and>
      financial_metrics (data st) \<noteq> None \<longrightarrow>
      last_in_section ''Financial Metrics'' (sections_of (Report_blocks U st))
        = Some (Element ''Monthly Rent Estimate'' [formatCurrency (monthly_figure re)]))"
proof -
  have a: "(monthly_rent re = None \<or> monthly_rent re = Some (Fin 0)) \<and>
      total_monthly_rent re = Some t \<and> t \<noteq> Fin 0 \<longrightarrow> monthly_figure re = t"
    by (cases t) (auto simp: monthly_figure_def or_else_def truthy_opt_number_def)
  have z: "truthy_number n \<longleftrightarrow> n \<noteq> Fin 0" for n
    by (cases n) auto
  have b: "monthly_figure re = Fin 0 \<longrightarrow>
      (monthly_rent re = None \<or> monthly_rent re = Some (Fin 0)) \<and>
      (total_monthly_rent re = None \<or> total_monthly_rent re = Some (Fin 0))"
    by (auto simp: monthly_figure_def or_else_def truthy_opt_number_def z
        split: option.splits if_splits)
  have c: "first_in_section ''Rental potential'' (sections_of (Report_cards U st))
        = Some (Element ''month'' [formatCurrency (monthly_figure re)])"
    if "\<not> report_loading st" "success (data st) = Some True" "rent_estimate (data st) = Some re"
  proof -
    have "section_named ''Rental potential'' (rental_potential_card (data st)) =
        Some (Element ''month'' [formatCurrency (monthly_figure re)]
              # when_string (rental_strategy re) (\<lambda>s. [Element ''strategy'' [Shown s]])
              @ when_number (annual_rent re) (\<lambda>n. [Element ''Annual rent'' [formatCurrency n]]))"
      using that by (simp add: rental_potential_card_def)
    then have "section_named ''Rental potential''
        (property_info_card (data st) @ [Element ''Risk & Notes'' []]
         @ remodel_cost_card (data st) @ rental_potential_card (data st)
         @ yield_payback_card (data st) @ divisions_section U (data st)
         @ cost_summary_section U (data st)) =
        Some (Element ''month'' [formatCurrency (monthly_figure re)]
              # when_string (rental_strategy re) (\<lambda>s. [Element ''strategy'' [Shown s]])
              @ when_number (annual_rent re) (\<lambda>n. [Element ''Annual rent'' [formatCurrency n]]))"
      by (simp add: section_named_append_miss section_named_append_hit section_other)
    then show ?thesis
      using that
      by (simp add: Report_cards_def sections_of_def truthy_opt_bool_def first_in_section_def)
  qed
  have e: "last_in_section ''Financial Metrics'' (sections_of (Report_blocks U st))
        = Some (Element ''Monthly Rent Estimate'' [formatCurrency (monthly_figure re)])"
    if "\<not> report_loading st" "success (data st) = Some True" "rent_estimate (data st) = Some re"
      "financial_metrics (data st) = Some fm" for fm
  proof -
    have "section_named ''Financial Metrics'' (financial_metrics_block (data st)) =
        Some ([Element ''ROI'' [ToFixed 2 (roi_percentage (metrics fm))],
               Element ''Net Yield'' [ToFixed 2 (net_yield (metrics fm))],
               Element ''Monthly Net Income'' [formatCurrency (monthly_net_income (net_income fm))],
               Element ''Annual Net Income'' [formatCurrency (annual_net_income (net_income fm))],
               Element ''Monthly Rent Estimate'' [formatCurrency (monthly_figure re)]])"
      using that by (simp add: financial_metrics_block_def)
    then have "section_named ''Financial Metrics''
        ([Element ''Property Analysis Report''
            (when_string (listing_id (data st)) (\<lambda>s. [Element ''Listing ID'' [Shown s]]))]
         @ property_information_block (data st) @ investment_summary_block (data st)
         @ financial_metrics_block (data st) @ divisions_section U (data st)
         @ cost_summary_section U (data st)) =
        Some ([Element ''ROI'' [ToFixed 2 (roi_percentage (metrics fm))],
               Element ''Net Yield'' [ToFixed 2 (net_yield (metrics fm))],
               Element ''Monthly Net Income'' [formatCurrency (monthly_net_income (net_income fm))],
               Element ''Annual Net Income'' [formatCurrency (annual_net_income (net_income fm))],
               Element ''Monthly Rent Estimate'' [formatCurrency (monthly_figure re)]])"
      by (simp add: section_named_append_miss section_named_append_hit section_other)
    then show ?thesis
      using that
      by (simp add: Report_blocks_def sections_of_def truthy_opt_bool_def last_in_section_def)
  qed
  show ?thesis
    using a b c e by blast
qed

theorem monthly_figure_fallback_witness:
  "monthly_rent \<lparr> monthly_rent = Some (Fin 0), total_monthly_rent = Some (Fin 1200),
                  annual_rent = Some (Fin 14400), rental_strategy = Some (str ''per_room'') \<rparr> = Some (Fin 0) \<and>
   monthly_figure \<lparr> monthly_rent = Some (Fin 0), total_monthly_rent = Some (Fin 1200),
                    annual_rent = Some (Fin 14400), rental_strategy = Some (str ''per_room'') \<rparr> = Fin 1200 \<and>
   monthly_figure \<lparr> monthly_rent = None, total_monthly_rent = Some (Fin 0),
                    annual_rent = None, rental_strategy = None \<rparr> = Fin 0 \<and>
   first_in_section ''Rental potential''
       (sections_of (Report_cards toUpperCase_on_ascii (rendered_state (full_snapshot (Some True)))))
     = Some (Element ''month'' [formatCurrency (Fin 1200)]) \<and>
   last_in_section ''Financial Metrics''
       (sections_of (Report_blocks toUpperCase_on_ascii (rendered_state (full_snapshot (Some True)))))
     = Some (Element ''Monthly Rent Estimate'' [formatCurrency (Fin 1200)])"
proof -
  let ?re = "\<lparr> monthly_rent = Some (Fin 0), total_monthly_rent = Some (Fin 1200),
               annual_rent = Some (Fin 14400), rental_strategy = Some (str ''per_room'') \<rparr>"
  let ?st = "rendered_state (full_snapshot (Some True))"
  have l: "\<not> report_loading ?st"
    by (simp add: rendered_state_def)
  have k: "success (data ?st) = Some True"
    by (simp add: rendered_state_def full_snapshot_def)
  have r: "rent_estimate (data ?st) = Some ?re"
    by (simp add: rendered_state_def full_snapshot_def)
  have f: "financial_metrics (data ?st) \<noteq> None"
    by (simp add: rendered_state_def full_snapshot_def)
  have m: "monthly_figure \<lparr> monthly_rent = None, total_monthly_rent = Some (Fin 0),
                    annual_rent = None, rental_strategy = None \<rparr> = Fin 0"
    by (simp add: monthly_figure_def or_else_def truthy_opt_number_def)
  from monthly_figure_fallback [where re = ?re and t = "Fin 1200" and st = ?st and U = toUpperCase_on_ascii]
  have t: "monthly_figure ?re = Fin 1200"
    by simp
  from monthly_figure_fallback [where re = ?re and t = "Fin 1200" and st = ?st and U = toUpperCase_on_ascii] l k r f
  have v: "first_in_section ''Rental potential'' (sections_of (Report_cards toUpperCase_on_ascii ?st))
             = Some (Element ''month'' [formatCurrency (monthly_figure ?re)])"
    and u: "last_in_section ''Financial Metrics'' (sections_of (Report_blocks toUpperCase_on_ascii ?st))
             = Some (Element ''Monthly Rent Estimate'' [formatCurrency (monthly_figure ?re)])"
    by blast+
  show ?thesis
    using m v u unfolding t by simp
qed

end
